theory Spec2Isabelle
  imports Main
begin

section \<open>CheckMyPaper: the paper lifecycle over the stored tables\<close>

text \<open>
  The repository is a browser client (React components) in front of a Postgres database
  reached through PostgREST. The lifecycle of a paper is decided in two places, and both
  are embedded here:
  \<^item> the migration (tables, defaults, row level security policies), and
  \<^item> the handlers of the components (\<open>handleUpload\<close>, \<open>handleAccept\<close>,
    \<open>handleReject\<close>, \<open>handleSubmit\<close>, \<open>loadPapers\<close>, \<open>markAsRead\<close>).

  A handler is a function from the stored tables to an outcome and the new tables. Every
  statement a handler sends is one atomic SQL statement, so a handler is a short sequence
  of atomic steps; the client clock, the database clock and the generated key are inputs.
\<close>

subsection \<open>Tables\<close>

type_synonym uuid = string
type_synonym timestamp = nat

datatype UserRole = Learner | Tutor

text \<open>Of a profile only \<open>id\<close> and \<open>role\<close> are read by a policy or a handler.\<close>

record Profile =
  id_u :: uuid
  role :: UserRole

datatype PaperStatus = Pending | Accepted | Checked | Rejected

record Paper =
  id_p :: uuid
  learner_id :: uuid
  tutor_id :: "uuid option"
  title :: string
  answer_sheet_url :: string
  question_paper_url :: "string option"
  checked_sheet_url :: "string option"
  status :: PaperStatus
  marks :: "int option"
  grade :: "string option"
  feedback :: "string option"
  created_at :: timestamp
  updated_at :: timestamp

record Notification =
  id_n :: uuid
  user_id :: uuid
  paper_id :: "uuid option"
  message :: string
  is_read :: bool
  created_at_n :: timestamp

record database =
  profiles :: "Profile list"
  papers :: "Paper list"
  notifications :: "Notification list"

text \<open>
  What a handler takes from outside the tables: \<open>new Date().toISOString()\<close> of the
  browser, \<open>now()\<close> of the database and \<open>gen_random_uuid()\<close> for the row it inserts.
\<close>

record env =
  client_now :: timestamp
  db_now :: timestamp
  gen_random_uuid :: uuid

text \<open>
  The outcomes a handler can end in other than success. The first four are raised by the
  client, the last three are errors of the database that the client rethrows.
\<close>

datatype error =
    MissingMarksOrGrade
  | CanvasNotFound
  | BlobFailed
  | UploadError
  | IntegerOutOfRange
  | RlsViolation
  | ForeignKeyViolation

subsection \<open>Row level security of the migration\<close>

text \<open>
  \<open>EXISTS (SELECT 1 FROM profiles WHERE profiles.id = auth.uid() AND profiles.role = 'tutor')\<close>.
  The subquery itself runs under the policy of \<open>profiles\<close>, which shows a user the own
  profile, the only row the subquery asks for.
\<close>

definition is_tutor :: "database \<Rightarrow> uuid \<Rightarrow> bool" where
  "is_tutor db uid = list_ex (\<lambda>pr. id_u pr = uid \<and> role pr = Tutor) (profiles db)"

definition has_profile :: "database \<Rightarrow> uuid \<Rightarrow> bool" where
  "has_profile db uid = list_ex (\<lambda>pr. id_u pr = uid) (profiles db)"

text \<open>
  A comparison with a NULL column is not true in SQL, so \<open>tutor_id = auth.uid()\<close> is
  \<open>tutor_id p = Some uid\<close>. Each policy is named after its \<open>CREATE POLICY\<close>.
\<close>

definition learners_can_view_own_papers :: "uuid \<Rightarrow> Paper \<Rightarrow> bool" where
  "learners_can_view_own_papers uid p = (learner_id p = uid)"

definition tutors_can_view_all_pending_papers :: "database \<Rightarrow> uuid \<Rightarrow> Paper \<Rightarrow> bool" where
  "tutors_can_view_all_pending_papers db uid p = is_tutor db uid"

definition learners_can_insert_own_papers :: "uuid \<Rightarrow> Paper \<Rightarrow> bool" where
  "learners_can_insert_own_papers uid p = (learner_id p = uid)"

definition learners_can_update_own_papers_using :: "uuid \<Rightarrow> Paper \<Rightarrow> bool" where
  "learners_can_update_own_papers_using uid p = (learner_id p = uid)"

definition learners_can_update_own_papers_check :: "uuid \<Rightarrow> Paper \<Rightarrow> bool" where
  "learners_can_update_own_papers_check uid p = (learner_id p = uid)"

definition tutors_can_update_assigned_papers_using :: "database \<Rightarrow> uuid \<Rightarrow> Paper \<Rightarrow> bool" where
  "tutors_can_update_assigned_papers_using db uid p =
     (tutor_id p = Some uid \<or>
      (tutor_id p = None \<and> status p = Pending \<and> is_tutor db uid))"

definition tutors_can_update_assigned_papers_check :: "database \<Rightarrow> uuid \<Rightarrow> Paper \<Rightarrow> bool" where
  "tutors_can_update_assigned_papers_check db uid p =
     (tutor_id p = Some uid \<or>
      (tutor_id p = Some uid \<and> is_tutor db uid))"

text \<open>Permissive policies of one command are joined by OR.\<close>

definition papers_select_policy :: "database \<Rightarrow> uuid \<Rightarrow> Paper \<Rightarrow> bool" where
  "papers_select_policy db uid p =
     (learners_can_view_own_papers uid p \<or> tutors_can_view_all_pending_papers db uid p)"

definition papers_update_using :: "database \<Rightarrow> uuid \<Rightarrow> Paper \<Rightarrow> bool" where
  "papers_update_using db uid p =
     (learners_can_update_own_papers_using uid p \<or>
      tutors_can_update_assigned_papers_using db uid p)"

definition papers_update_check :: "database \<Rightarrow> uuid \<Rightarrow> Paper \<Rightarrow> bool" where
  "papers_update_check db uid p =
     (learners_can_update_own_papers_check uid p \<or>
      tutors_can_update_assigned_papers_check db uid p)"

definition users_can_view_own_notifications :: "uuid \<Rightarrow> Notification \<Rightarrow> bool" where
  "users_can_view_own_notifications uid n = (user_id n = uid)"

definition users_can_insert_notifications :: "uuid \<Rightarrow> Notification \<Rightarrow> bool" where
  "users_can_insert_notifications uid n = True"

definition users_can_update_own_notifications_using :: "uuid \<Rightarrow> Notification \<Rightarrow> bool" where
  "users_can_update_own_notifications_using uid n = (user_id n = uid)"

definition users_can_update_own_notifications_check :: "uuid \<Rightarrow> Notification \<Rightarrow> bool" where
  "users_can_update_own_notifications_check uid n = (user_id n = uid)"

subsection \<open>Statements\<close>

text \<open>
  \<open>supabase.from('papers').update(values).eq('id', pid)\<close> as the user \<open>uid\<close>.
  The rows of the statement are those with the key that pass the SELECT policy (the
  statement reads \<open>id\<close>) and the USING clause of the UPDATE policies; a row that does not
  pass is skipped without an error. A new row that fails WITH CHECK aborts the whole
  statement, and so does a changed reference to a profile that does not exist.
\<close>

definition update_target :: "database \<Rightarrow> uuid \<Rightarrow> uuid \<Rightarrow> Paper \<Rightarrow> bool" where
  "update_target db uid pid p =
     (id_p p = pid \<and> papers_select_policy db uid p \<and> papers_update_using db uid p)"

definition references_ok :: "database \<Rightarrow> Paper \<Rightarrow> Paper \<Rightarrow> bool" where
  "references_ok db p p' =
     ((learner_id p' = learner_id p \<or> has_profile db (learner_id p')) \<and>
      (tutor_id p' = tutor_id p \<or>
       (case tutor_id p' of None \<Rightarrow> True | Some t \<Rightarrow> has_profile db t)))"

definition update_papers ::
  "database \<Rightarrow> uuid \<Rightarrow> uuid \<Rightarrow> (Paper \<Rightarrow> Paper) \<Rightarrow> error + database" where
  "update_papers db uid pid f =
     (let old = filter (update_target db uid pid) (papers db) in
      if \<not> list_all (\<lambda>p. papers_update_check db uid (f p) \<and>
                           papers_select_policy db uid (f p)) old
      then Inl RlsViolation
      else if \<not> list_all (\<lambda>p. references_ok db p (f p)) old
      then Inl ForeignKeyViolation
      else Inr (db\<lparr>papers := map (\<lambda>p. if update_target db uid pid p then f p else p)
                                  (papers db)\<rparr>))"

text \<open>
  \<open>supabase.from('notifications').insert({user_id, paper_id, message})\<close>. The columns
  left out take their defaults. The insert policy checks nothing; the two references must
  exist. No handler looks at the result of this statement, so a refused insert is silent.
\<close>

definition insert_notification ::
  "env \<Rightarrow> database \<Rightarrow> uuid \<Rightarrow> uuid \<Rightarrow> string \<Rightarrow> database" where
  "insert_notification e db user pid msg =
     (let n = \<lparr>id_n = gen_random_uuid e, user_id = user, paper_id = Some pid,
               message = msg, is_read = False, created_at_n = db_now e\<rparr> in
      if users_can_insert_notifications user n \<and> has_profile db user \<and>
         list_ex (\<lambda>p. id_p p = pid) (papers db)
      then db\<lparr>notifications := notifications db @ [n]\<rparr>
      else db)"

subsection \<open>The tutor's handlers: accept and reject\<close>

definition quoted :: "string \<Rightarrow> string" where
  "quoted s = CHR 0x22 # s @ [CHR 0x22]"

definition accept_message :: "Paper \<Rightarrow> string" where
  "accept_message paper =
     ''Your paper '' @ quoted (title paper) @
     '' has been accepted by a tutor and is being checked.''"

definition reject_message :: "Paper \<Rightarrow> string" where
  "reject_message paper =
     ''Your paper '' @ quoted (title paper) @ '' was not accepted for checking.''"

text \<open>
  \<open>paper\<close> is the copy of the row the dashboard holds since its last \<open>loadPapers\<close>;
  the stored row may have changed since. \<open>uid\<close> is \<open>profile.id\<close>, which is the
  authenticated user: the dashboard is only rendered with a profile, and the policy of
  \<open>profiles\<close> shows a user no profile but the own one.
  The update carries no condition but the key. An error of the update is rethrown (and
  shown in an alert), and then no notification is inserted.
\<close>

definition handleAccept ::
  "env \<Rightarrow> uuid \<Rightarrow> Paper \<Rightarrow> database \<Rightarrow> (error + unit) \<times> database" where
  "handleAccept e uid paper db =
     (case update_papers db uid (id_p paper)
             (\<lambda>p. p\<lparr>tutor_id := Some uid, status := Accepted, updated_at := client_now e\<rparr>) of
        Inl err \<Rightarrow> (Inl err, db)
      | Inr db1 \<Rightarrow>
          (Inr (), insert_notification e db1 (learner_id paper) (id_p paper)
                     (accept_message paper)))"

definition handleReject ::
  "env \<Rightarrow> uuid \<Rightarrow> Paper \<Rightarrow> database \<Rightarrow> (error + unit) \<times> database" where
  "handleReject e uid paper db =
     (case update_papers db uid (id_p paper)
             (\<lambda>p. p\<lparr>status := Rejected, updated_at := client_now e\<rparr>) of
        Inl err \<Rightarrow> (Inl err, db)
      | Inr db1 \<Rightarrow>
          (Inr (), insert_notification e db1 (learner_id paper) (id_p paper)
                     (reject_message paper)))"

text \<open>
  \<open>loadPapers\<close> of the tutor's dashboard: the rows the SELECT policy shows, filtered by
  \<open>tutor_id.eq.uid or status.eq.pending\<close>, newest first (the order of rows with the
  same \<open>created_at\<close> is not fixed by the query; here it is that of a stable sort).
\<close>

definition loadPapers :: "database \<Rightarrow> uuid \<Rightarrow> Paper list" where
  "loadPapers db uid =
     rev (sort_key created_at
            (filter (\<lambda>p. papers_select_policy db uid p \<and>
                          (tutor_id p = Some uid \<or> status p = Pending))
                    (papers db)))"

subsection \<open>The annotation editor: finalize\<close>

text \<open>
  \<open>parseInt(marks)\<close> with no radix, after ECMAScript: skip leading white space, take a
  sign, take \<open>0x\<close> or \<open>0X\<close> as the mark of radix 16, read the longest prefix of digits;
  no digit at all gives NaN, here \<open>None\<close>. Characters are those of Latin-1.
\<close>

definition StrWhiteSpaceChar :: "char \<Rightarrow> bool" where
  "StrWhiteSpaceChar c =
     (c \<in> set [CHR 0x09, CHR 0x0A, CHR 0x0B, CHR 0x0C, CHR 0x0D, CHR 0x20, CHR 0xA0])"

definition digit_of :: "nat \<Rightarrow> char \<Rightarrow> nat option" where
  "digit_of R c =
     (let n = (of_char c :: nat);
          v = (if 48 \<le> n \<and> n \<le> 57 then Some (n - 48)
               else if 97 \<le> n \<and> n \<le> 122 then Some (n - 87)
               else if 65 \<le> n \<and> n \<le> 90 then Some (n - 55)
               else None)
      in case v of None \<Rightarrow> None | Some d \<Rightarrow> if d < R then Some d else None)"

fun leading_digits :: "nat \<Rightarrow> string \<Rightarrow> nat list" where
  "leading_digits R [] = []"
| "leading_digits R (c # cs) =
     (case digit_of R c of None \<Rightarrow> [] | Some d \<Rightarrow> d # leading_digits R cs)"

definition parseInt :: "string \<Rightarrow> int option" where
  "parseInt inputString =
     (let S = dropWhile StrWhiteSpaceChar inputString;
          sign = (if take 1 S = ''-'' then - 1 else (1::int));
          S1 = (if take 1 S = ''+'' \<or> take 1 S = ''-'' then drop 1 S else S);
          hex = (take 2 S1 = ''0x'' \<or> take 2 S1 = ''0X'');
          R = (if hex then 16 else 10);
          S2 = (if hex then drop 2 S1 else S1);
          Z = leading_digits R S2
      in if Z = [] then None
         else Some (sign * int (foldl (\<lambda>a d. a * R + d) 0 Z)))"

text \<open>
  The value sent for the column \<open>marks integer\<close>. \<open>JSON.stringify\<close> writes NaN and
  the infinities as \<open>null\<close>; a parsed number is infinite from \<open>2^1024 - 2^970\<close> on (the
  rounding of a double). Every other number is written in digits or with an exponent, and
  the database takes it only inside the range of \<open>integer\<close>; below that bound and
  above \<open>2^53\<close> the double has lost digits, but all of these are out of range anyway.
  The database refuses such a number when it assigns it to a row.
\<close>

definition marks_column :: "int option \<Rightarrow> error + int option" where
  "marks_column parsed =
     (case parsed of
        None \<Rightarrow> Inr None
      | Some v \<Rightarrow>
          if 2 ^ 1024 - 2 ^ 970 \<le> \<bar>v\<bar> then Inr None
          else if - (2 ^ 31) \<le> v \<and> v < 2 ^ 31 then Inr (Some v)
          else Inl IntegerOutOfRange)"

text \<open>What the canvas and the object store give back before the row is written.\<close>

datatype artifact = CanvasMissing | BlobNull | UploadFails | Uploaded string

definition checked_message :: "Paper \<Rightarrow> string \<Rightarrow> string \<Rightarrow> string" where
  "checked_message paper grade_text marks_text =
     ''Your paper '' @ quoted (title paper) @ '' has been checked! Grade: '' @ grade_text @
     '', Marks: '' @ marks_text"


text \<open>
  \<open>marks_text\<close>, \<open>grade_text\<close> and \<open>feedback_text\<close> are the three strings of the
  form. The only test before the upload and the write is \<open>!marks || !grade\<close>, true of an
  empty string. The update carries no condition but the key; \<open>tutor_id\<close> is not among
  the written columns. A marks value out of the range of the column is an error of the
  statement only when the row filter lets a row through; a statement that matches no row
  assigns nothing and reports no error, and the handler goes on to its notification. An
  error after the first test is raised inside the callback of \<open>toBlob\<close>; whatever
  becomes of it there, nothing has been written.
\<close>

definition handleSubmit ::
  "env \<Rightarrow> uuid \<Rightarrow> Paper \<Rightarrow> string \<Rightarrow> string \<Rightarrow> string \<Rightarrow> artifact \<Rightarrow> database \<Rightarrow>
   (error + unit) \<times> database" where
  "handleSubmit e uid paper marks_text grade_text feedback_text art db =
     (if marks_text = [] \<or> grade_text = [] then (Inl MissingMarksOrGrade, db)
      else case art of
        CanvasMissing \<Rightarrow> (Inl CanvasNotFound, db)
      | BlobNull \<Rightarrow> (Inl BlobFailed, db)
      | UploadFails \<Rightarrow> (Inl UploadError, db)
      | Uploaded url \<Rightarrow>
          (case (case marks_column (parseInt marks_text) of
                   Inl err \<Rightarrow>
                     if list_ex (update_target db uid (id_p paper)) (papers db)
                     then Inl err else Inr db
                 | Inr m \<Rightarrow>
                     update_papers db uid (id_p paper)
                       (\<lambda>p. p\<lparr>status := Checked, checked_sheet_url := Some url, marks := m,
                               grade := Some grade_text, feedback := Some feedback_text,
                               updated_at := client_now e\<rparr>)) of
             Inl err \<Rightarrow> (Inl err, db)
           | Inr db1 \<Rightarrow>
               (Inr (), insert_notification e db1 (learner_id paper) (id_p paper)
                          (checked_message paper grade_text marks_text))))"

subsection \<open>The learner's upload and the notification bell\<close>

datatype file_upload = FileUploadFails | FileUploaded string

text \<open>
  \<open>insert\<close> into \<open>papers\<close>: the columns left out take their defaults (a generated key,
  NULL, \<open>now()\<close>); the insert policy and the reference to the learner's profile are
  checked.
\<close>

definition insert_paper ::
  "env \<Rightarrow> database \<Rightarrow> uuid \<Rightarrow> uuid \<Rightarrow> string \<Rightarrow> string \<Rightarrow> string option \<Rightarrow> error + database" where
  "insert_paper e db uid learner ttl answer question =
     (let p = \<lparr>id_p = gen_random_uuid e, learner_id = learner, tutor_id = None, title = ttl,
               answer_sheet_url = answer, question_paper_url = question,
               checked_sheet_url = None, status = Pending, marks = None, grade = None,
               feedback = None, created_at = db_now e, updated_at = db_now e\<rparr> in
      if \<not> learners_can_insert_own_papers uid p then Inl RlsViolation
      else if \<not> has_profile db learner then Inl ForeignKeyViolation
      else Inr (db\<lparr>papers := papers db @ [p]\<rparr>))"

text \<open>
  \<open>answerSheet\<close> and \<open>questionPaper\<close> are the chosen files, each with what its upload
  gives; without an answer sheet the handler returns at once.
\<close>

definition handleUpload ::
  "env \<Rightarrow> uuid \<Rightarrow> string \<Rightarrow> file_upload option \<Rightarrow> file_upload option \<Rightarrow> database \<Rightarrow>
   (error + unit) \<times> database" where
  "handleUpload e uid ttl answerSheet questionPaper db =
     (case answerSheet of
        None \<Rightarrow> (Inr (), db)
      | Some FileUploadFails \<Rightarrow> (Inl UploadError, db)
      | Some (FileUploaded answerSheetUrl) \<Rightarrow>
          (case questionPaper of
             Some FileUploadFails \<Rightarrow> (Inl UploadError, db)
           | _ \<Rightarrow>
              (case insert_paper e db uid uid ttl answerSheetUrl
                      (case questionPaper of Some (FileUploaded q) \<Rightarrow> Some q | _ \<Rightarrow> None) of
                 Inl err \<Rightarrow> (Inl err, db)
               | Inr db1 \<Rightarrow> (Inr (), db1))))"

text \<open>
  \<open>supabase.from('notifications').update({ is_read: true }).eq('id', notificationId)\<close>:
  the rows with the key that the policies show to \<open>uid\<close>; the new row keeps
  \<open>user_id\<close>, so WITH CHECK cannot fail. The handler ignores the result.
\<close>

definition markAsRead :: "uuid \<Rightarrow> uuid \<Rightarrow> database \<Rightarrow> database" where
  "markAsRead uid notificationId db =
     db\<lparr>notifications :=
          map (\<lambda>n. if id_n n = notificationId \<and> users_can_view_own_notifications uid n \<and>
                      users_can_update_own_notifications_using uid n
                   then n\<lparr>is_read := True\<rparr> else n)
              (notifications db)\<rparr>"

subsection \<open>The application: which handler a user can reach\<close>

text \<open>
  \<open>AppContent\<close> renders the learner's dashboard for the role learner and the tutor's
  for the role tutor; both carry the navigation bar. The tutor's dashboard offers Accept
  and Reject on a listed row whose copy is pending, and the editor on a copy that is
  accepted and the tutor's own.
\<close>

datatype action =
    Upload string "file_upload option" "file_upload option"
  | Accept Paper
  | Reject Paper
  | Submit Paper string string string artifact
  | MarkAsRead uuid

definition profile_of :: "database \<Rightarrow> uuid \<Rightarrow> Profile option" where
  "profile_of db uid = find (\<lambda>pr. id_u pr = uid) (profiles db)"

definition App :: "env \<Rightarrow> uuid \<Rightarrow> action \<Rightarrow> database \<Rightarrow> (error + unit) \<times> database" where
  "App e uid a db =
     (case map_option role (profile_of db uid) of
        None \<Rightarrow> (Inr (), db)
      | Some Learner \<Rightarrow>
          (case a of
             Upload ttl answerSheet questionPaper \<Rightarrow>
               handleUpload e uid ttl answerSheet questionPaper db
           | MarkAsRead n \<Rightarrow> (Inr (), markAsRead uid n db)
           | _ \<Rightarrow> (Inr (), db))
      | Some Tutor \<Rightarrow>
          (case a of
             Accept paper \<Rightarrow>
               if status paper = Pending then handleAccept e uid paper db else (Inr (), db)
           | Reject paper \<Rightarrow>
               if status paper = Pending then handleReject e uid paper db else (Inr (), db)
           | Submit paper marks_text grade_text feedback_text art \<Rightarrow>
               if status paper = Accepted \<and> tutor_id paper = Some uid
               then handleSubmit e uid paper marks_text grade_text feedback_text art db
               else (Inr (), db)
           | MarkAsRead n \<Rightarrow> (Inr (), markAsRead uid n db)
           | _ \<Rightarrow> (Inr (), db)))"

text \<open>A session of the application: who did what, with which clock and key, in order.\<close>

fun run :: "(env \<times> uuid \<times> action) list \<Rightarrow> database \<Rightarrow> database" where
  "run [] db = db"
| "run ((e, uid, a) # rest) db = run rest (snd (App e uid a db))"

subsection \<open>Properties of a stored paper and of a step\<close>

text \<open>
  The part of the grading invariant that the handlers keep: a pending paper carries no
  result, and a checked paper carries a grade and a checked sheet.
\<close>

definition grading_consistent :: "Paper \<Rightarrow> bool" where
  "grading_consistent p =
     ((status p = Pending \<longrightarrow>
         marks p = None \<and> grade p = None \<and> checked_sheet_url p = None) \<and>
      (status p = Checked \<longrightarrow> grade p \<noteq> None \<and> checked_sheet_url p \<noteq> None))"

text \<open>
  The part of the assignment invariant that the handlers keep: a pending paper has no
  tutor, an accepted or checked paper has one. Nothing is said of a rejected paper.
\<close>

definition assignment_consistent :: "Paper \<Rightarrow> bool" where
  "assignment_consistent p =
     ((status p = Pending \<longrightarrow> tutor_id p = None) \<and>
      (status p = Accepted \<or> status p = Checked \<longrightarrow> tutor_id p \<noteq> None))"

text \<open>
  The integrity the tables have by their keys and by the way rows come to be: a profile
  key occurs once, and the learner of a paper is not a tutor (a paper is inserted by the
  learner's dashboard with the own key).
\<close>

definition well_formed :: "database \<Rightarrow> bool" where
  "well_formed db =
     (distinct (map id_u (profiles db)) \<and>
      list_all (\<lambda>p. \<not> is_tutor db (learner_id p)) (papers db))"

text \<open>A decline may touch \<open>status\<close> and \<open>updated_at\<close> of a row and nothing else.\<close>

definition decline_frame :: "timestamp \<Rightarrow> Paper \<Rightarrow> Paper \<Rightarrow> bool" where
  "decline_frame t p p' =
     (id_p p' = id_p p \<and> learner_id p' = learner_id p \<and> tutor_id p' = tutor_id p \<and>
      title p' = title p \<and> answer_sheet_url p' = answer_sheet_url p \<and>
      question_paper_url p' = question_paper_url p \<and>
      checked_sheet_url p' = checked_sheet_url p \<and> marks p' = marks p \<and>
      grade p' = grade p \<and> feedback p' = feedback p \<and> created_at p' = created_at p \<and>
      (p' = p \<or> (status p' = Rejected \<and> updated_at p' = t)))"

text \<open>
  What a handler that returns does to the notifications: on success one more, for the
  given user and paper, unread; on an error none.
\<close>

definition emits_one ::
  "database \<Rightarrow> uuid \<Rightarrow> uuid \<Rightarrow> (error + unit) \<times> database \<Rightarrow> bool" where
  "emits_one db learner pid out =
     (case fst out of
        Inr _ \<Rightarrow>
          (\<exists>n. notifications (snd out) = notifications db @ [n] \<and> user_id n = learner \<and>
               paper_id n = Some pid \<and> \<not> is_read n)
      | Inl _ \<Rightarrow> notifications (snd out) = notifications db)"

subsection \<open>A session used as the running example\<close>

text \<open>
  Learner R1 uploads "Algebra Quiz"; tutor T1 accepts it; T1 checks it with 85 marks and
  grade A. T2 is a second tutor. \<open>algebra_quiz\<close> is the row as uploaded, which is also
  the copy a dashboard holds until it reloads.
\<close>

definition at_time :: "timestamp \<Rightarrow> uuid \<Rightarrow> env" where
  "at_time t k = \<lparr>client_now = t, db_now = t, gen_random_uuid = k\<rparr>"

definition users :: "Profile list" where
  "users = [\<lparr>id_u = ''R1'', role = Learner\<rparr>, \<lparr>id_u = ''T1'', role = Tutor\<rparr>,
            \<lparr>id_u = ''T2'', role = Tutor\<rparr>]"

definition algebra_quiz :: Paper where
  "algebra_quiz =
     \<lparr>id_p = ''p1'', learner_id = ''R1'', tutor_id = None, title = ''Algebra Quiz'',
      answer_sheet_url = ''answer.png'', question_paper_url = None,
      checked_sheet_url = None, status = Pending, marks = None, grade = None,
      feedback = None, created_at = 1, updated_at = 1\<rparr>"

definition accepted_quiz :: Paper where
  "accepted_quiz = algebra_quiz\<lparr>tutor_id := Some ''T1'', status := Accepted, updated_at := 2\<rparr>"

definition checked_quiz :: Paper where
  "checked_quiz =
     accepted_quiz\<lparr>status := Checked, checked_sheet_url := Some ''checked.png'',
                   marks := Some 85, grade := Some ''A'', feedback := Some [],
                   updated_at := 3\<rparr>"

definition accepted_note :: Notification where
  "accepted_note =
     \<lparr>id_n = ''n1'', user_id = ''R1'', paper_id = Some ''p1'',
      message = accept_message algebra_quiz, is_read = False, created_at_n = 2\<rparr>"

definition checked_note :: Notification where
  "checked_note =
     \<lparr>id_n = ''n2'', user_id = ''R1'', paper_id = Some ''p1'',
      message = checked_message algebra_quiz ''A'' ''85'', is_read = False,
      created_at_n = 3\<rparr>"

definition db_submitted :: database where
  "db_submitted = \<lparr>profiles = users, papers = [algebra_quiz], notifications = []\<rparr>"

definition db_assigned :: database where
  "db_assigned = \<lparr>profiles = users, papers = [accepted_quiz], notifications = [accepted_note]\<rparr>"

definition db_finalized :: database where
  "db_finalized =
     \<lparr>profiles = users, papers = [checked_quiz],
      notifications = [accepted_note, checked_note]\<rparr>"

definition rejected_quiz :: Paper where
  "rejected_quiz = accepted_quiz\<lparr>status := Rejected, updated_at := 6\<rparr>"

definition rejected_note :: Notification where
  "rejected_note =
     \<lparr>id_n = ''n8'', user_id = ''R1'', paper_id = Some ''p1'',
      message = reject_message algebra_quiz, is_read = False, created_at_n = 6\<rparr>"

definition db_declined :: database where
  "db_declined =
     \<lparr>profiles = users, papers = [rejected_quiz],
      notifications = [accepted_note, rejected_note]\<rparr>"

section \<open>Verification\<close>

subsection \<open>Unfolding sets and the example session\<close>

lemmas policy_defs =
  is_tutor_def has_profile_def learners_can_view_own_papers_def
  tutors_can_view_all_pending_papers_def learners_can_insert_own_papers_def
  learners_can_update_own_papers_using_def learners_can_update_own_papers_check_def
  tutors_can_update_assigned_papers_using_def tutors_can_update_assigned_papers_check_def
  papers_select_policy_def papers_update_using_def papers_update_check_def
  users_can_view_own_notifications_def users_can_insert_notifications_def
  users_can_update_own_notifications_using_def users_can_update_own_notifications_check_def

lemmas statement_defs =
  update_target_def references_ok_def update_papers_def insert_notification_def
  insert_paper_def

lemmas message_defs = quoted_def accept_message_def reject_message_def checked_message_def

lemmas parse_defs = parseInt_def StrWhiteSpaceChar_def digit_of_def marks_column_def

lemmas example_defs =
  at_time_def users_def algebra_quiz_def accepted_quiz_def checked_quiz_def
  accepted_note_def checked_note_def db_submitted_def db_assigned_def db_finalized_def
  rejected_quiz_def rejected_note_def db_declined_def

text \<open>The example session is a session of the code.\<close>

lemma scenario_upload:
  "handleUpload (at_time 1 ''p1'') ''R1'' ''Algebra Quiz'' (Some (FileUploaded ''answer.png''))
     None \<lparr>profiles = users, papers = [], notifications = []\<rparr> = (Inr (), db_submitted)"
  by (simp add: handleUpload_def policy_defs statement_defs example_defs)

lemma scenario_accept:
  "handleAccept (at_time 2 ''n1'') ''T1'' algebra_quiz db_submitted = (Inr (), db_assigned)"
  by (simp add: handleAccept_def policy_defs statement_defs example_defs)

lemma scenario_submit:
  "handleSubmit (at_time 3 ''n2'') ''T1'' accepted_quiz ''85'' ''A'' [] (Uploaded ''checked.png'')
     db_assigned = (Inr (), db_finalized)"
  by (simp add: handleSubmit_def policy_defs statement_defs example_defs parse_defs
      checked_message_def)

text \<open>
  A tutor's reject of a pending paper that nobody has accepted is refused by the database:
  the row passes USING, but the new row still has no tutor, and WITH CHECK of the tutors'
  policy asks for \<open>tutor_id = auth.uid()\<close>.
\<close>

lemma scenario_reject_pending:
  "handleReject (at_time 2 ''n1'') ''T1'' algebra_quiz db_submitted
     = (Inl RlsViolation, db_submitted)"
  by (simp add: handleReject_def policy_defs statement_defs example_defs)

subsection \<open>What one update statement does\<close>

lemma update_papers_no_target:
  assumes "\<forall>p\<in>set (papers db). \<not> update_target db uid pid p"
  shows "update_papers db uid pid f = Inr db"
proof -
  have "filter (update_target db uid pid) (papers db) = []"
    using assms by (simp add: filter_empty_conv)
  moreover have "map (\<lambda>p. if update_target db uid pid p then f p else p) (papers db) = papers db"
    using assms by (simp add: map_idI)
  ultimately show ?thesis by (simp add: update_papers_def)
qed

lemma update_papers_Inr:
  assumes "update_papers db uid pid f = Inr db1"
  shows "db1 = db\<lparr>papers := map (\<lambda>p. if update_target db uid pid p then f p else p) (papers db)\<rparr>"
    and "\<forall>p\<in>set (papers db). update_target db uid pid p \<longrightarrow> papers_update_check db uid (f p)"
  using assms by (auto simp: update_papers_def Let_def list_all_iff split: if_splits)

lemma update_papers_rows:
  assumes "update_papers db uid pid f = Inr db1" and "p' \<in> set (papers db1)"
  shows "p' \<in> set (papers db) \<or>
         (\<exists>p\<in>set (papers db). p' = f p \<and> update_target db uid pid p \<and>
                                papers_update_check db uid (f p))"
  using update_papers_Inr [OF assms(1)] assms(2) by auto

lemma update_papers_profiles:
  "update_papers db uid pid f = Inr db1 \<Longrightarrow> profiles db1 = profiles db"
  by (drule update_papers_Inr(1)) simp

lemma update_papers_notifications:
  "update_papers db uid pid f = Inr db1 \<Longrightarrow> notifications db1 = notifications db"
  by (drule update_papers_Inr(1)) simp

lemma insert_notification_papers [simp]:
  "papers (insert_notification e db u pid msg) = papers db"
  by (simp add: insert_notification_def Let_def)

lemma insert_notification_profiles [simp]:
  "profiles (insert_notification e db u pid msg) = profiles db"
  by (simp add: insert_notification_def Let_def)

lemma outsider_is_no_target:
  assumes "tutor_id p \<noteq> Some uid" and "learner_id p \<noteq> uid"
    and "tutor_id p \<noteq> None \<or> status p \<noteq> Pending"
  shows "\<not> update_target db uid pid p"
  using assms by (auto simp: update_target_def policy_defs)

subsection \<open>Claim C1: a claim on a paper that already has a tutor\<close>

text \<open>
  C1 as the specification states it: a claim on a submission whose assigned reviewer is
  set fails with AlreadyAssigned and leaves the submission unchanged. The code has no such
  failure. On the example, with the paper accepted by T1 and the dashboards still showing
  it pending: the claim of T2 returns without an error, and the claim of T1 returns
  without an error and writes the row again (\<open>updated_at\<close> moves from 2 to 5).
\<close>

theorem C1_claim_on_assigned_counterexample:
  "tutor_id accepted_quiz = Some ''T1'' \<and>
   fst (handleAccept (at_time 5 ''n9'') ''T2'' algebra_quiz db_assigned) = Inr () \<and>
   handleAccept (at_time 5 ''n9'') ''T1'' algebra_quiz db_assigned =
     (Inr (),
      \<lparr>profiles = users, papers = [accepted_quiz\<lparr>updated_at := 5\<rparr>],
       notifications =
         [accepted_note,
          \<lparr>id_n = ''n9'', user_id = ''R1'', paper_id = Some ''p1'',
           message = accept_message algebra_quiz, is_read = False, created_at_n = 5\<rparr>]\<rparr>)"
  by (simp add: handleAccept_def policy_defs statement_defs example_defs)

text \<open>
  C1 as amended: when every stored row of the paper has a tutor other than the caller (and
  the caller is not the paper's learner), the claim leaves the stored papers unchanged,
  because the row filter of the update policy lets a tutor write only a row without tutor
  that is pending, or a row that is the tutor's own. The call does not fail.
\<close>

theorem C1_claim_by_other_tutor_changes_nothing:
  assumes "\<forall>p\<in>set (papers db). id_p p = id_p paper \<longrightarrow>
             tutor_id p \<noteq> None \<and> tutor_id p \<noteq> Some uid \<and> learner_id p \<noteq> uid"
  shows "fst (handleAccept e uid paper db) = Inr () \<and>
         papers (snd (handleAccept e uid paper db)) = papers db"
proof -
  have "\<forall>p\<in>set (papers db). \<not> update_target db uid (id_p paper) p"
  proof
    fix p assume "p \<in> set (papers db)"
    show "\<not> update_target db uid (id_p paper) p"
    proof (cases "id_p p = id_p paper")
      case True
      with assms \<open>p \<in> set (papers db)\<close> show ?thesis
        by (intro outsider_is_no_target) auto
    next
      case False
      then show ?thesis by (simp add: update_target_def)
    qed
  qed
  then have "update_papers db uid (id_p paper)
               (\<lambda>p. p\<lparr>tutor_id := Some uid, status := Accepted, updated_at := client_now e\<rparr>)
             = Inr db"
    by (rule update_papers_no_target)
  then show ?thesis by (simp add: handleAccept_def)
qed

theorem C1_claim_by_other_tutor_changes_nothing_witness:
  "papers db_assigned = [accepted_quiz] \<and> tutor_id accepted_quiz = Some ''T1'' \<and>
   learner_id accepted_quiz = ''R1'' \<and>
   fst (handleAccept (at_time 5 ''n9'') ''T2'' algebra_quiz db_assigned) = Inr () \<and>
   papers (snd (handleAccept (at_time 5 ''n9'') ''T2'' algebra_quiz db_assigned))
     = papers db_assigned"
proof -
  have h: "\<forall>p\<in>set (papers db_assigned). id_p p = id_p algebra_quiz \<longrightarrow>
      tutor_id p \<noteq> None \<and> tutor_id p \<noteq> Some ''T2'' \<and> learner_id p \<noteq> ''T2''"
    by (simp add: example_defs)
  from C1_claim_by_other_tutor_changes_nothing [OF h, of "at_time 5 ''n9''"]
  show ?thesis by (simp add: example_defs)
qed

subsection \<open>Claim C2: a transition from a state that has none\<close>

text \<open>
  C2 as the specification states it: a decline of an assigned submission fails with
  InvalidTransition, changes no field and inserts no notification. On the example, with
  the paper accepted by T1 and T1's dashboard still showing it pending, the decline of T1
  returns without an error, the stored paper is rejected and a notification is inserted.
\<close>

theorem C2_decline_of_assigned_counterexample:
  "status accepted_quiz = Accepted \<and>
   handleReject (at_time 6 ''n8'') ''T1'' algebra_quiz db_assigned =
     (Inr (),
      \<lparr>profiles = users,
       papers = [accepted_quiz\<lparr>status := Rejected, updated_at := 6\<rparr>],
       notifications =
         [accepted_note,
          \<lparr>id_n = ''n8'', user_id = ''R1'', paper_id = Some ''p1'',
           message = reject_message algebra_quiz, is_read = False, created_at_n = 6\<rparr>]\<rparr>)"
  by (simp add: handleReject_def policy_defs statement_defs example_defs)

text \<open>
  C2 as amended: a claim or a decline of a paper of which no stored row is pending, by a
  caller who is neither the tutor of the row nor its learner, leaves the stored papers
  unchanged. Neither call fails.
\<close>

theorem C2_transition_by_outsider_changes_nothing:
  assumes "\<forall>p\<in>set (papers db). id_p p = id_p paper \<longrightarrow>
             status p \<noteq> Pending \<and> tutor_id p \<noteq> Some uid \<and> learner_id p \<noteq> uid"
  shows "fst (handleAccept e uid paper db) = Inr () \<and>
         papers (snd (handleAccept e uid paper db)) = papers db \<and>
         fst (handleReject e uid paper db) = Inr () \<and>
         papers (snd (handleReject e uid paper db)) = papers db"
proof -
  have none: "\<forall>p\<in>set (papers db). \<not> update_target db uid (id_p paper) p"
  proof
    fix p assume "p \<in> set (papers db)"
    show "\<not> update_target db uid (id_p paper) p"
    proof (cases "id_p p = id_p paper")
      case True
      with assms \<open>p \<in> set (papers db)\<close> show ?thesis
        by (intro outsider_is_no_target) auto
    next
      case False
      then show ?thesis by (simp add: update_target_def)
    qed
  qed
  have "update_papers db uid (id_p paper)
          (\<lambda>p. p\<lparr>tutor_id := Some uid, status := Accepted, updated_at := client_now e\<rparr>)
        = Inr db"
    using none by (rule update_papers_no_target)
  moreover have "update_papers db uid (id_p paper)
          (\<lambda>p. p\<lparr>status := Rejected, updated_at := client_now e\<rparr>) = Inr db"
    using none by (rule update_papers_no_target)
  ultimately show ?thesis by (simp add: handleAccept_def handleReject_def)
qed

theorem C2_transition_by_outsider_changes_nothing_witness:
  "papers db_finalized = [checked_quiz] \<and> status checked_quiz = Checked \<and>
   tutor_id checked_quiz = Some ''T1'' \<and> learner_id checked_quiz = ''R1'' \<and>
   fst (handleAccept (at_time 6 ''n8'') ''T2'' algebra_quiz db_finalized) = Inr () \<and>
   papers (snd (handleAccept (at_time 6 ''n8'') ''T2'' algebra_quiz db_finalized))
     = papers db_finalized \<and>
   fst (handleReject (at_time 6 ''n8'') ''T2'' algebra_quiz db_finalized) = Inr () \<and>
   papers (snd (handleReject (at_time 6 ''n8'') ''T2'' algebra_quiz db_finalized))
     = papers db_finalized"
proof -
  have h: "\<forall>p\<in>set (papers db_finalized). id_p p = id_p algebra_quiz \<longrightarrow>
      status p \<noteq> Pending \<and> tutor_id p \<noteq> Some ''T2'' \<and> learner_id p \<noteq> ''T2''"
    by (simp add: example_defs)
  from C2_transition_by_outsider_changes_nothing [OF h, of "at_time 6 ''n8''"]
  show ?thesis by (simp add: example_defs)
qed

subsection \<open>Claim C4: finalize by somebody who is not the assigned tutor\<close>

text \<open>
  C4 as the specification states it: finalize by an actor other than the assigned reviewer
  fails with Forbidden whatever the other inputs. The code has no such failure. On the
  example, with the paper accepted by T1: the finalize of T2 with 85 marks and grade A
  returns without an error, and with no marks it ends in the message of the missing marks.
\<close>

theorem C4_finalize_by_other_tutor_counterexample:
  "tutor_id accepted_quiz = Some ''T1'' \<and>
   fst (handleSubmit (at_time 7 ''n7'') ''T2'' accepted_quiz ''85'' ''A'' []
          (Uploaded ''checked.png'') db_assigned) = Inr () \<and>
   fst (handleSubmit (at_time 7 ''n7'') ''T2'' accepted_quiz [] ''A'' []
          (Uploaded ''checked.png'') db_assigned) = Inl MissingMarksOrGrade"
  by (simp add: handleSubmit_def policy_defs statement_defs example_defs parse_defs)

text \<open>
  C4 as amended: finalize by a caller who is neither the tutor of the stored row nor its
  learner leaves the stored papers unchanged, whatever the other inputs: either the row
  filter skips the row, or (a pending row without tutor, a caller who is a tutor) the new
  row fails WITH CHECK and the statement is refused.
\<close>

theorem C4_finalize_by_outsider_changes_nothing:
  assumes "\<forall>p\<in>set (papers db). id_p p = id_p paper \<longrightarrow>
             tutor_id p \<noteq> Some uid \<and> learner_id p \<noteq> uid"
  shows "papers (snd (handleSubmit e uid paper marks_text grade_text feedback_text art db))
           = papers db"
proof -
  define f where "f = (\<lambda>m url (p::Paper).
     p\<lparr>status := Checked, checked_sheet_url := Some url, marks := m,
       grade := Some grade_text, feedback := Some feedback_text,
       updated_at := client_now e\<rparr>)"
  have upd: "papers db1 = papers db" if "update_papers db uid (id_p paper) (f m url) = Inr db1"
    for m url db1
  proof -
    have "\<not> update_target db uid (id_p paper) p" if "p \<in> set (papers db)" for p
    proof
      assume t: "update_target db uid (id_p paper) p"
      then have "id_p p = id_p paper" by (simp add: update_target_def)
      with assms \<open>p \<in> set (papers db)\<close>
      have out: "tutor_id p \<noteq> Some uid" "learner_id p \<noteq> uid" by auto
      from update_papers_Inr(2) [OF \<open>update_papers db uid (id_p paper) (f m url) = Inr db1\<close>]
        \<open>p \<in> set (papers db)\<close> t
      have "papers_update_check db uid (f m url p)" by blast
      with out show False by (auto simp: f_def policy_defs)
    qed
    then have "update_papers db uid (id_p paper) (f m url) = Inr db"
      by (intro update_papers_no_target) blast
    with that show ?thesis by simp
  qed
  show ?thesis
    using upd
    by (auto simp: handleSubmit_def f_def split: artifact.splits sum.splits)
qed

theorem C4_finalize_by_outsider_changes_nothing_witness:
  "papers db_assigned = [accepted_quiz] \<and> tutor_id accepted_quiz = Some ''T1'' \<and>
   learner_id accepted_quiz = ''R1'' \<and>
   papers (snd (handleSubmit (at_time 7 ''n7'') ''T2'' accepted_quiz ''85'' ''A'' []
                  (Uploaded ''checked.png'') db_assigned)) = papers db_assigned"
proof -
  have h: "\<forall>p\<in>set (papers db_assigned). id_p p = id_p accepted_quiz \<longrightarrow>
      tutor_id p \<noteq> Some ''T2'' \<and> learner_id p \<noteq> ''T2''"
    by (simp add: example_defs)
  from C4_finalize_by_outsider_changes_nothing [OF h]
  show ?thesis by (simp add: example_defs)
qed

subsection \<open>Claim C5: validation of the inputs of finalize\<close>




text \<open>
  A number out of the range of the column, on the example: refused when T1, whose row it
  is, finalizes; not even looked at when T2 does, whose statement matches no row.
\<close>

lemma scenario_marks_out_of_range:
  "handleSubmit (at_time 3 ''n2'') ''T1'' accepted_quiz ''2147483648'' ''A'' []
     (Uploaded ''checked.png'') db_assigned = (Inl IntegerOutOfRange, db_assigned)"
  "fst (handleSubmit (at_time 3 ''n2'') ''T2'' accepted_quiz ''2147483648'' ''A'' []
          (Uploaded ''checked.png'') db_assigned) = Inr ()"
  "papers (snd (handleSubmit (at_time 3 ''n2'') ''T2'' accepted_quiz ''2147483648'' ''A'' []
                  (Uploaded ''checked.png'') db_assigned)) = papers db_assigned"
  by (simp_all add: handleSubmit_def policy_defs statement_defs example_defs parse_defs)




subsection \<open>Invariants of the stored papers\<close>

lemma update_papers_preserves:
  assumes "update_papers db uid pid f = Inr db1"
    and "\<forall>p\<in>set (papers db). P p"
    and "\<And>p. p \<in> set (papers db) \<Longrightarrow> update_target db uid pid p \<Longrightarrow>
              papers_update_check db uid (f p) \<Longrightarrow> P (f p)"
  shows "\<forall>p\<in>set (papers db1). P p"
proof
  fix p' assume "p' \<in> set (papers db1)"
  from update_papers_rows [OF assms(1) this] assms(2,3) show "P p'" by blast
qed

lemma handleAccept_preserves:
  assumes "\<forall>p\<in>set (papers db). P p"
    and "\<And>p. p \<in> set (papers db) \<Longrightarrow>
           P (p\<lparr>tutor_id := Some uid, status := Accepted, updated_at := client_now e\<rparr>)"
  shows "\<forall>p\<in>set (papers (snd (handleAccept e uid paper db))). P p"
proof (cases "update_papers db uid (id_p paper)
               (\<lambda>p. p\<lparr>tutor_id := Some uid, status := Accepted, updated_at := client_now e\<rparr>)")
  case (Inl err)
  with assms(1) show ?thesis by (simp add: handleAccept_def)
next
  case (Inr db1)
  from update_papers_preserves [OF Inr assms(1)] assms(2)
  have "\<forall>p\<in>set (papers db1). P p" by blast
  with Inr show ?thesis by (simp add: handleAccept_def)
qed

lemma handleReject_preserves:
  assumes "\<forall>p\<in>set (papers db). P p"
    and "\<And>p. p \<in> set (papers db) \<Longrightarrow> P (p\<lparr>status := Rejected, updated_at := client_now e\<rparr>)"
  shows "\<forall>p\<in>set (papers (snd (handleReject e uid paper db))). P p"
proof (cases "update_papers db uid (id_p paper)
               (\<lambda>p. p\<lparr>status := Rejected, updated_at := client_now e\<rparr>)")
  case (Inl err)
  with assms(1) show ?thesis by (simp add: handleReject_def)
next
  case (Inr db1)
  from update_papers_preserves [OF Inr assms(1)] assms(2)
  have "\<forall>p\<in>set (papers db1). P p" by blast
  with Inr show ?thesis by (simp add: handleReject_def)
qed

lemma handleSubmit_preserves:
  assumes "\<forall>p\<in>set (papers db). P p"
    and "\<And>p m url. p \<in> set (papers db) \<Longrightarrow> update_target db uid (id_p paper) p \<Longrightarrow>
           papers_update_check db uid
             (p\<lparr>status := Checked, checked_sheet_url := Some url, marks := m,
                grade := Some grade_text, feedback := Some feedback_text,
                updated_at := client_now e\<rparr>) \<Longrightarrow>
           P (p\<lparr>status := Checked, checked_sheet_url := Some url, marks := m,
                grade := Some grade_text, feedback := Some feedback_text,
                updated_at := client_now e\<rparr>)"
  shows "\<forall>p\<in>set (papers (snd (handleSubmit e uid paper marks_text grade_text feedback_text
                                    art db))). P p"
proof -
  have upd: "\<forall>p\<in>set (papers db1). P p"
    if "update_papers db uid (id_p paper)
          (\<lambda>p. p\<lparr>status := Checked, checked_sheet_url := Some url, marks := m,
                  grade := Some grade_text, feedback := Some feedback_text,
                  updated_at := client_now e\<rparr>) = Inr db1" for m url db1
    using update_papers_preserves [OF that assms(1)] assms(2) by blast
  show ?thesis
    using assms(1) upd
    by (auto simp: handleSubmit_def split: artifact.splits sum.splits)
qed

lemma handleUpload_preserves:
  assumes "\<forall>p\<in>set (papers db). P p"
    and "\<And>url q. P \<lparr>id_p = gen_random_uuid e, learner_id = uid, tutor_id = None, title = ttl,
               answer_sheet_url = url, question_paper_url = q,
               checked_sheet_url = None, status = Pending, marks = None, grade = None,
               feedback = None, created_at = db_now e, updated_at = db_now e\<rparr>"
  shows "\<forall>p\<in>set (papers (snd (handleUpload e uid ttl answerSheet questionPaper db))). P p"
  using assms
  by (auto simp: handleUpload_def insert_paper_def Let_def
      split: option.splits file_upload.splits sum.splits if_splits)

lemma markAsRead_papers [simp]: "papers (markAsRead uid n db) = papers db"
  by (simp add: markAsRead_def)

lemma markAsRead_profiles [simp]: "profiles (markAsRead uid n db) = profiles db"
  by (simp add: markAsRead_def)

lemma App_grading_consistent:
  assumes "\<forall>p\<in>set (papers db). grading_consistent p"
  shows "\<forall>p\<in>set (papers (snd (App e uid a db))). grading_consistent p"
proof (cases a)
  case (Upload ttl answerSheet questionPaper)
  have "\<forall>p\<in>set (papers (snd (handleUpload e uid ttl answerSheet questionPaper db))).
          grading_consistent p"
    using assms by (rule handleUpload_preserves) (simp add: grading_consistent_def)
  with assms Upload show ?thesis
    by (simp add: App_def split: option.splits UserRole.splits)
next
  case (Accept paper)
  have "\<forall>p\<in>set (papers (snd (handleAccept e uid paper db))). grading_consistent p"
    using assms by (rule handleAccept_preserves) (simp add: grading_consistent_def)
  with assms Accept show ?thesis
    by (simp add: App_def split: option.splits UserRole.splits)
next
  case (Reject paper)
  have "\<forall>p\<in>set (papers (snd (handleReject e uid paper db))). grading_consistent p"
    using assms by (rule handleReject_preserves) (simp add: grading_consistent_def)
  with assms Reject show ?thesis
    by (simp add: App_def split: option.splits UserRole.splits)
next
  case (Submit paper marks_text grade_text feedback_text art)
  have "\<forall>p\<in>set (papers (snd (handleSubmit e uid paper marks_text grade_text feedback_text
                                   art db))). grading_consistent p"
    using assms by (rule handleSubmit_preserves) (simp add: grading_consistent_def)
  with assms Submit show ?thesis
    by (simp add: App_def split: option.splits UserRole.splits)
next
  case (MarkAsRead n)
  with assms show ?thesis
    by (simp add: App_def split: option.splits UserRole.splits)
qed

subsection \<open>Claim C3: the result fields and the state checked\<close>

text \<open>
  C3 as the specification states it: marks, grade and checked sheet are all set exactly in
  the state checked and all null in every other state. In the example session T1 accepts
  and checks the paper; a dashboard of T1 that still shows the paper pending then accepts
  it again. The stored paper is accepted and carries 85 marks, grade A and the checked
  sheet.
\<close>

theorem C3_result_outside_checked_counterexample:
  "papers (run [(at_time 2 ''n1'', ''T1'', Accept algebra_quiz),
                (at_time 3 ''n2'', ''T1'',
                   Submit accepted_quiz ''85'' ''A'' [] (Uploaded ''checked.png'')),
                (at_time 8 ''n3'', ''T1'', Accept algebra_quiz)] db_submitted)
     = [checked_quiz\<lparr>status := Accepted, updated_at := 8\<rparr>] \<and>
   marks checked_quiz = Some 85 \<and> grade checked_quiz = Some ''A'' \<and>
   checked_sheet_url checked_quiz = Some ''checked.png''"
  by (simp add: App_def profile_of_def handleAccept_def handleSubmit_def policy_defs
      statement_defs example_defs parse_defs)

text \<open>
  The marks of a checked paper can be null as well: the marks text \<open>.5\<close> passes the test
  of the handler, \<open>parseInt\<close> gives NaN, and NaN is sent as \<open>null\<close>.
\<close>

lemma scenario_marks_not_a_number:
  "papers (snd (handleSubmit (at_time 3 ''n2'') ''T1'' accepted_quiz ''.5'' ''A'' []
                  (Uploaded ''checked.png'') db_assigned))
     = [checked_quiz\<lparr>marks := None\<rparr>]"
  by (simp add: handleSubmit_def policy_defs statement_defs example_defs parse_defs)

text \<open>
  C3 as amended: at every point of every session, a pending paper has marks, grade and
  checked sheet all null, and a checked paper has a grade and a checked sheet (finalize
  writes the state and the three fields in one statement).
\<close>

theorem C3_grading_consistent_in_every_session:
  assumes "\<forall>p\<in>set (papers db). grading_consistent p"
  shows "\<forall>p\<in>set (papers (run steps db)). grading_consistent p"
  using assms
proof (induction steps arbitrary: db)
  case Nil
  then show ?case by simp
next
  case (Cons step steps)
  obtain e uid a where step: "step = (e, uid, a)" by (cases step)
  from Cons.prems have "\<forall>p\<in>set (papers (snd (App e uid a db))). grading_consistent p"
    by (rule App_grading_consistent)
  then show ?case unfolding step by (simp add: Cons.IH)
qed

theorem C3_grading_consistent_in_every_session_witness:
  "papers db_submitted = [algebra_quiz] \<and> grading_consistent algebra_quiz \<and>
   run [(at_time 2 ''n1'', ''T1'', Accept algebra_quiz),
        (at_time 3 ''n2'', ''T1'',
           Submit accepted_quiz ''85'' ''A'' [] (Uploaded ''checked.png''))] db_submitted
     = db_finalized \<and>
   grading_consistent checked_quiz"
proof -
  have h: "\<forall>p\<in>set (papers db_submitted). grading_consistent p"
    by (simp add: example_defs grading_consistent_def)
  have r: "run [(at_time 2 ''n1'', ''T1'', Accept algebra_quiz),
        (at_time 3 ''n2'', ''T1'',
           Submit accepted_quiz ''85'' ''A'' [] (Uploaded ''checked.png''))] db_submitted
     = db_finalized"
    by (simp add: App_def profile_of_def handleAccept_def handleSubmit_def policy_defs
        statement_defs example_defs parse_defs checked_message_def)
  from C3_grading_consistent_in_every_session [OF h,
      of "[(at_time 2 ''n1'', ''T1'', Accept algebra_quiz),
        (at_time 3 ''n2'', ''T1'',
           Submit accepted_quiz ''85'' ''A'' [] (Uploaded ''checked.png''))]"]
  have "grading_consistent checked_quiz" unfolding r by (simp add: db_finalized_def)
  with h r show ?thesis by (simp add: db_submitted_def)
qed

subsection \<open>Claim C6: the tutor of a paper and its state\<close>

lemma is_tutor_profiles: "profiles db' = profiles db \<Longrightarrow> is_tutor db' uid = is_tutor db uid"
  by (simp add: is_tutor_def)

lemma profile_of_tutor:
  assumes "profile_of db uid = Some pr" and "role pr = Tutor"
  shows "is_tutor db uid"
proof -
  from assms(1) have "pr \<in> set (profiles db)" "id_u pr = uid"
    by (auto simp: profile_of_def find_Some_iff)
  with assms(2) show ?thesis by (auto simp: is_tutor_def list_ex_iff)
qed

lemma profile_of_learner:
  assumes "distinct (map id_u (profiles db))"
    and "profile_of db uid = Some pr" and "role pr = Learner"
  shows "\<not> is_tutor db uid"
proof
  assume "is_tutor db uid"
  then obtain q where q: "q \<in> set (profiles db)" "id_u q = uid" "role q = Tutor"
    by (auto simp: is_tutor_def list_ex_iff)
  from assms(2) have pr: "pr \<in> set (profiles db)" "id_u pr = uid"
    by (auto simp: profile_of_def find_Some_iff)
  from assms(1) have "inj_on id_u (set (profiles db))" by (simp add: distinct_map)
  with q pr have "q = pr" by (auto dest: inj_onD)
  with q(3) assms(3) show False by simp
qed

lemma handler_profiles:
  "profiles (snd (handleAccept e uid paper db)) = profiles db"
  "profiles (snd (handleReject e uid paper db)) = profiles db"
  "profiles (snd (handleSubmit e uid paper marks_text grade_text feedback_text art db))
     = profiles db"
  "profiles (snd (handleUpload e uid ttl answerSheet questionPaper db)) = profiles db"
  by (auto simp: handleAccept_def handleReject_def handleSubmit_def handleUpload_def
      insert_paper_def Let_def
      split: sum.splits artifact.splits option.splits file_upload.splits if_splits
      dest: update_papers_profiles)

lemma App_profiles: "profiles (snd (App e uid a db)) = profiles db"
  by (cases a)
     (simp_all add: App_def handler_profiles split: option.splits UserRole.splits)

lemma App_well_formed:
  assumes "well_formed db"
  shows "well_formed (snd (App e uid a db))"
proof -
  let ?P = "\<lambda>p. \<not> is_tutor db (learner_id p)"
  from assms have old: "\<forall>p\<in>set (papers db). ?P p" and dist: "distinct (map id_u (profiles db))"
    by (simp_all add: well_formed_def list_all_iff)
  have "\<forall>p\<in>set (papers (snd (App e uid a db))). ?P p"
  proof (cases a)
    case (Upload ttl answerSheet questionPaper)
    show ?thesis
    proof (cases "profile_of db uid")
      case None
      with old Upload show ?thesis by (simp add: App_def)
    next
      case (Some pr)
      show ?thesis
      proof (cases "role pr")
        case Learner
        with dist Some have no: "\<not> is_tutor db uid" by (intro profile_of_learner)
        have "\<forall>p\<in>set (papers (snd (handleUpload e uid ttl answerSheet questionPaper db))).
                ?P p"
          by (rule handleUpload_preserves [where P = ?P, OF old]) (simp add: no)
        with Upload Some Learner show ?thesis by (simp add: App_def)
      next
        case Tutor
        with old Upload Some show ?thesis by (simp add: App_def)
      qed
    qed
  next
    case (Accept paper)
    have "\<forall>p\<in>set (papers (snd (handleAccept e uid paper db))). ?P p"
      by (rule handleAccept_preserves [where P = ?P, OF old]) (use old in simp)
    with old Accept show ?thesis
      by (simp add: App_def split: option.splits UserRole.splits)
  next
    case (Reject paper)
    have "\<forall>p\<in>set (papers (snd (handleReject e uid paper db))). ?P p"
      by (rule handleReject_preserves [where P = ?P, OF old]) (use old in simp)
    with old Reject show ?thesis
      by (simp add: App_def split: option.splits UserRole.splits)
  next
    case (Submit paper marks_text grade_text feedback_text art)
    have "\<forall>p\<in>set (papers (snd (handleSubmit e uid paper marks_text grade_text feedback_text
                                     art db))). ?P p"
      by (rule handleSubmit_preserves [where P = ?P, OF old]) (use old in simp)
    with old Submit show ?thesis
      by (simp add: App_def split: option.splits UserRole.splits)
  next
    case (MarkAsRead n)
    with old show ?thesis
      by (simp add: App_def split: option.splits UserRole.splits)
  qed
  with dist show ?thesis
    by (simp add: well_formed_def list_all_iff App_profiles
        is_tutor_profiles [OF App_profiles])
qed

lemma App_assignment_consistent:
  assumes wf: "well_formed db"
    and old: "\<forall>p\<in>set (papers db). assignment_consistent p"
  shows "\<forall>p\<in>set (papers (snd (App e uid a db))). assignment_consistent p"
proof (cases a)
  case (Upload ttl answerSheet questionPaper)
  have "\<forall>p\<in>set (papers (snd (handleUpload e uid ttl answerSheet questionPaper db))).
          assignment_consistent p"
    using old by (rule handleUpload_preserves) (simp add: assignment_consistent_def)
  with old Upload show ?thesis
    by (simp add: App_def split: option.splits UserRole.splits)
next
  case (Accept paper)
  have "\<forall>p\<in>set (papers (snd (handleAccept e uid paper db))). assignment_consistent p"
    using old by (rule handleAccept_preserves) (simp add: assignment_consistent_def)
  with old Accept show ?thesis
    by (simp add: App_def split: option.splits UserRole.splits)
next
  case (Reject paper)
  have "\<forall>p\<in>set (papers (snd (handleReject e uid paper db))). assignment_consistent p"
    using old by (rule handleReject_preserves) (simp add: assignment_consistent_def)
  with old Reject show ?thesis
    by (simp add: App_def split: option.splits UserRole.splits)
next
  case (Submit paper marks_text grade_text feedback_text art)
  show ?thesis
  proof (cases "profile_of db uid")
    case None
    with old Submit show ?thesis by (simp add: App_def)
  next
    case (Some pr)
    show ?thesis
    proof (cases "role pr")
      case Learner
      with old Submit Some show ?thesis by (simp add: App_def)
    next
      case Tutor
      with Some have tut: "is_tutor db uid" by (intro profile_of_tutor)
      have "\<forall>p\<in>set (papers (snd (handleSubmit e uid paper marks_text grade_text feedback_text
                                       art db))). assignment_consistent p"
        using old
      proof (rule handleSubmit_preserves)
        fix p :: Paper and m url
        let ?p' = "p\<lparr>status := Checked, checked_sheet_url := Some url, marks := m,
                     grade := Some grade_text, feedback := Some feedback_text,
                     updated_at := client_now e\<rparr>"
        assume p: "p \<in> set (papers db)" and chk: "papers_update_check db uid ?p'"
        from wf p have "\<not> is_tutor db (learner_id p)"
          by (simp add: well_formed_def list_all_iff)
        with tut have "learner_id p \<noteq> uid" by auto
        with chk have "tutor_id p = Some uid" by (auto simp: policy_defs)
        then show "assignment_consistent ?p'" by (simp add: assignment_consistent_def)
      qed
      with old Submit Some Tutor show ?thesis by (simp add: App_def)
    qed
  qed
next
  case (MarkAsRead n)
  with old show ?thesis
    by (simp add: App_def split: option.splits UserRole.splits)
qed

text \<open>
  C6 as the specification states it: the tutor is set exactly in the states accepted and
  checked, so a rejected paper has no tutor. In the example session T1 accepts the paper;
  a dashboard of T1 that still shows it pending then rejects it. The stored paper is
  rejected and its tutor is still T1.
\<close>

theorem C6_rejected_with_tutor_counterexample:
  "papers (run [(at_time 2 ''n1'', ''T1'', Accept algebra_quiz),
                (at_time 4 ''n4'', ''T1'', Reject algebra_quiz)] db_submitted)
     = [algebra_quiz\<lparr>tutor_id := Some ''T1'', status := Rejected, updated_at := 4\<rparr>]"
  by (simp add: App_def profile_of_def handleAccept_def handleReject_def policy_defs
      statement_defs example_defs)

text \<open>
  C6 as amended: at every point of every session that starts from well-formed tables, a
  pending paper has no tutor and an accepted or checked paper has one; a rejected paper
  keeps the tutor it had.
\<close>

theorem C6_assignment_consistent_in_every_session:
  assumes "well_formed db" and "\<forall>p\<in>set (papers db). assignment_consistent p"
  shows "\<forall>p\<in>set (papers (run steps db)). assignment_consistent p"
  using assms
proof (induction steps arbitrary: db)
  case Nil
  then show ?case by simp
next
  case (Cons step steps)
  obtain e uid a where step: "step = (e, uid, a)" by (cases step)
  have "well_formed (snd (App e uid a db))"
    using Cons.prems(1) by (rule App_well_formed)
  moreover have "\<forall>p\<in>set (papers (snd (App e uid a db))). assignment_consistent p"
    using Cons.prems by (rule App_assignment_consistent)
  ultimately show ?case unfolding step by (simp add: Cons.IH)
qed

theorem C6_assignment_consistent_in_every_session_witness:
  "well_formed db_submitted \<and> papers db_submitted = [algebra_quiz] \<and>
   assignment_consistent algebra_quiz \<and>
   run [(at_time 2 ''n1'', ''T1'', Accept algebra_quiz),
        (at_time 3 ''n2'', ''T1'',
           Submit accepted_quiz ''85'' ''A'' [] (Uploaded ''checked.png''))] db_submitted
     = db_finalized \<and>
   assignment_consistent checked_quiz"
proof -
  have w: "well_formed db_submitted"
    by (simp add: well_formed_def is_tutor_def example_defs)
  have h: "\<forall>p\<in>set (papers db_submitted). assignment_consistent p"
    by (simp add: example_defs assignment_consistent_def)
  have r: "run [(at_time 2 ''n1'', ''T1'', Accept algebra_quiz),
        (at_time 3 ''n2'', ''T1'',
           Submit accepted_quiz ''85'' ''A'' [] (Uploaded ''checked.png''))] db_submitted
     = db_finalized"
    by (simp add: App_def profile_of_def handleAccept_def handleSubmit_def policy_defs
        statement_defs example_defs parse_defs checked_message_def)
  from C6_assignment_consistent_in_every_session [OF w h,
      of "[(at_time 2 ''n1'', ''T1'', Accept algebra_quiz),
        (at_time 3 ''n2'', ''T1'',
           Submit accepted_quiz ''85'' ''A'' [] (Uploaded ''checked.png''))]"]
  have "assignment_consistent checked_quiz" unfolding r by (simp add: db_finalized_def)
  with w h r show ?thesis by (simp add: db_submitted_def)
qed

subsection \<open>Claim C7: notifications and transitions\<close>

lemma insert_notification_appends:
  assumes "has_profile db learner" and "list_ex (\<lambda>p. id_p p = pid) (papers db)"
  shows "notifications (insert_notification e db learner pid msg) =
           notifications db @
             [\<lparr>id_n = gen_random_uuid e, user_id = learner, paper_id = Some pid,
               message = msg, is_read = False, created_at_n = db_now e\<rparr>]"
  using assms by (simp add: insert_notification_def policy_defs)

lemma update_papers_keeps_keys:
  assumes "update_papers db uid pid f = Inr db1" and "\<And>p. id_p (f p) = id_p p"
  shows "map id_p (papers db1) = map id_p (papers db)"
  using update_papers_Inr(1) [OF assms(1)] assms(2) by simp

lemma update_then_insert_emits_one:
  assumes stored: "p \<in> set (papers db)" "id_p p = pid" "has_profile db learner"
    and keys: "\<And>p. id_p (f p) = id_p p"
  shows "emits_one db learner pid
           (case update_papers db uid pid f of
              Inl err \<Rightarrow> (Inl err, db)
            | Inr db1 \<Rightarrow> (Inr (), insert_notification e db1 learner pid msg))"
proof (cases "update_papers db uid pid f")
  case (Inl err)
  then show ?thesis by (simp add: emits_one_def)
next
  case (Inr db1)
  have same: "map id_p (papers db1) = map id_p (papers db)"
    using Inr keys by (rule update_papers_keeps_keys)
  have "pid \<in> set (map id_p (papers db))"
    using stored(1,2) by auto
  then have "pid \<in> set (map id_p (papers db1))"
    unfolding same .
  then have "list_ex (\<lambda>p. id_p p = pid) (papers db1)"
    by (auto simp: list_ex_iff)
  moreover have "has_profile db1 learner"
    using stored(3) update_papers_profiles [OF Inr] by (simp add: has_profile_def)
  ultimately have "notifications (insert_notification e db1 learner pid msg) =
           notifications db1 @
             [\<lparr>id_n = gen_random_uuid e, user_id = learner, paper_id = Some pid,
               message = msg, is_read = False, created_at_n = db_now e\<rparr>]"
    by (intro insert_notification_appends)
  with Inr update_papers_notifications [OF Inr] show ?thesis
    by (simp add: emits_one_def)
qed

lemma handleAccept_emits_one:
  assumes "p \<in> set (papers db)" "id_p p = id_p paper" "has_profile db (learner_id paper)"
  shows "emits_one db (learner_id paper) (id_p paper) (handleAccept e uid paper db)"
  unfolding handleAccept_def by (rule update_then_insert_emits_one [OF assms]) simp

lemma handleReject_emits_one:
  assumes "p \<in> set (papers db)" "id_p p = id_p paper" "has_profile db (learner_id paper)"
  shows "emits_one db (learner_id paper) (id_p paper) (handleReject e uid paper db)"
  unfolding handleReject_def by (rule update_then_insert_emits_one [OF assms]) simp

lemma handleSubmit_emits_one:
  assumes "p \<in> set (papers db)" "id_p p = id_p paper" "has_profile db (learner_id paper)"
  shows "emits_one db (learner_id paper) (id_p paper)
           (handleSubmit e uid paper marks_text grade_text feedback_text art db)"
proof (cases "marks_text = [] \<or> grade_text = []")
  case True
  then show ?thesis by (auto simp: handleSubmit_def emits_one_def)
next
  case False
  show ?thesis
  proof (cases art)
    case (Uploaded url)
    show ?thesis
    proof (cases "marks_column (parseInt marks_text)")
      case (Inl err)
      have "list_ex (\<lambda>q. id_p q = id_p paper) (papers db)"
        using assms(1,2) by (auto simp: list_ex_iff)
      with assms(3) Inl False Uploaded show ?thesis
        by (simp add: handleSubmit_def emits_one_def insert_notification_appends)
    next
      case (Inr m)
      have "emits_one db (learner_id paper) (id_p paper)
              (case update_papers db uid (id_p paper)
                      (\<lambda>p. p\<lparr>status := Checked, checked_sheet_url := Some url, marks := m,
                              grade := Some grade_text, feedback := Some feedback_text,
                              updated_at := client_now e\<rparr>) of
                 Inl err \<Rightarrow> (Inl err, db)
               | Inr db1 \<Rightarrow>
                   (Inr (), insert_notification e db1 (learner_id paper) (id_p paper)
                              (checked_message paper grade_text marks_text)))"
        by (rule update_then_insert_emits_one [OF assms]) simp
      with False Uploaded Inr show ?thesis by (simp add: handleSubmit_def)
    qed
  qed (use False in \<open>simp_all add: handleSubmit_def emits_one_def\<close>)
qed

lemma handleUpload_notifications:
  "notifications (snd (handleUpload e uid ttl answerSheet questionPaper db)) = notifications db"
  by (auto simp: handleUpload_def insert_paper_def Let_def
      split: option.splits file_upload.splits sum.splits if_splits)

lemma markAsRead_keeps_all_but_is_read:
  "map (\<lambda>n. n\<lparr>is_read := b\<rparr>) (notifications (markAsRead uid k db))
     = map (\<lambda>n. n\<lparr>is_read := b\<rparr>) (notifications db)"
  by (simp add: markAsRead_def)

lemma changed_papers_only_on_success:
  "papers (snd (handleAccept e uid paper db)) \<noteq> papers db \<Longrightarrow>
     fst (handleAccept e uid paper db) = Inr ()"
  "papers (snd (handleReject e uid paper db)) \<noteq> papers db \<Longrightarrow>
     fst (handleReject e uid paper db) = Inr ()"
  "papers (snd (handleSubmit e uid paper marks_text grade_text feedback_text art db))
     \<noteq> papers db \<Longrightarrow>
     fst (handleSubmit e uid paper marks_text grade_text feedback_text art db) = Inr ()"
  by (auto simp: handleAccept_def handleReject_def handleSubmit_def
      split: sum.splits artifact.splits if_splits)

text \<open>
  What holds of the notifications. The paper is a stored one whose learner has a profile,
  and the dashboard's copy of it has the stored key and learner. A claim, a decline or a
  finalize that changes a stored paper returns without an error; one that returns without
  an error has inserted exactly one notification, unread, for the learner and the paper;
  one that ends in an error has inserted none. The upload and the marking of a
  notification as read insert none.
\<close>

lemma one_notification_after_each_update:
  assumes "p \<in> set (papers db)" and "id_p paper = id_p p"
    and "learner_id paper = learner_id p" and "has_profile db (learner_id p)"
  shows "emits_one db (learner_id p) (id_p p) (handleAccept e uid paper db) \<and>
         emits_one db (learner_id p) (id_p p) (handleReject e uid paper db) \<and>
         emits_one db (learner_id p) (id_p p)
           (handleSubmit e uid paper marks_text grade_text feedback_text art db) \<and>
         notifications (snd (handleUpload e uid ttl answerSheet questionPaper db))
           = notifications db \<and>
         length (notifications (markAsRead uid k db)) = length (notifications db)"
proof -
  from assms have a: "p \<in> set (papers db)" "id_p p = id_p paper"
    "has_profile db (learner_id paper)" by simp_all
  have eq: "learner_id p = learner_id paper" "id_p p = id_p paper"
    using assms(2,3) by simp_all
  have "length (notifications (markAsRead uid k db)) = length (notifications db)"
    by (simp add: markAsRead_def)
  then show ?thesis
    unfolding eq
    using handleAccept_emits_one [OF a] handleReject_emits_one [OF a]
      handleSubmit_emits_one [OF a] handleUpload_notifications
    by blast
qed

text \<open>
  C7: no notification is to be produced outside a successful claim, decline or finalize.
  The handlers rethrow an error of their update before they notify, but an update whose
  row filter lets no row through reports no error. On the example the paper is accepted
  by T1 and the dashboard of T2 still shows it pending: the reject of T2 writes no row,
  the paper stays accepted by T1, and a notification tells the learner that the paper was
  not accepted for checking.
\<close>

theorem C7_notification_without_transition:
  "papers db_assigned = [accepted_quiz] \<and> status accepted_quiz = Accepted \<and>
   tutor_id accepted_quiz = Some ''T1'' \<and> status algebra_quiz = Pending \<and>
   handleReject (at_time 5 ''n9'') ''T2'' algebra_quiz db_assigned =
     (Inr (),
      \<lparr>profiles = users, papers = [accepted_quiz],
       notifications =
         [accepted_note,
          \<lparr>id_n = ''n9'', user_id = ''R1'', paper_id = Some ''p1'',
           message = reject_message algebra_quiz, is_read = False, created_at_n = 5\<rparr>]\<rparr>)"
  by (simp add: handleReject_def policy_defs statement_defs example_defs)

subsection \<open>Claim C8: which papers a tutor can read\<close>

text \<open>
  What the dashboard lists is pending or the tutor's own: the filter of \<open>loadPapers\<close>.
\<close>

lemma loadPapers_lists_pending_or_own:
  "set (loadPapers db uid) \<subseteq>
     {p \<in> set (papers db). tutor_id p = Some uid \<or> status p = Pending}"
  by (auto simp: loadPapers_def)

text \<open>
  C8: a tutor is to read a paper exactly when it is pending or the tutor's own, never a
  paper assigned to another tutor. The policy that grants a tutor the reading, named
  "Tutors can view all pending papers", asks only for the role: on the example, T2 may
  read the paper that T1 has accepted.
\<close>

theorem C8_tutor_reads_paper_of_other_tutor:
  "tutor_id accepted_quiz = Some ''T1'' \<and> status accepted_quiz = Accepted \<and>
   accepted_quiz \<in> set (papers db_assigned) \<and>
   tutors_can_view_all_pending_papers db_assigned ''T2'' accepted_quiz \<and>
   papers_select_policy db_assigned ''T2'' accepted_quiz \<and>
   loadPapers db_assigned ''T2'' = []"
  by (simp add: loadPapers_def policy_defs example_defs)

subsection \<open>Claim C9: what a decline writes\<close>

text \<open>
  C9: a decline that returns without an error has changed, in any stored paper, at most
  the status (to rejected) and \<open>updated_at\<close> (to the client's time); every other field
  of every paper, the tutor among them, is as before, and no paper is added or removed.
\<close>

theorem C9_decline_writes_status_and_time_only:
  assumes "handleReject e uid paper db = (Inr (), db')"
  shows "list_all2 (decline_frame (client_now e)) (papers db) (papers db') \<and>
         profiles db' = profiles db"
proof (cases "update_papers db uid (id_p paper)
               (\<lambda>p. p\<lparr>status := Rejected, updated_at := client_now e\<rparr>)")
  case (Inl err)
  with assms show ?thesis by (simp add: handleReject_def)
next
  case (Inr db1)
  with assms have db': "db' = insert_notification e db1 (learner_id paper) (id_p paper)
                               (reject_message paper)"
    by (simp add: handleReject_def)
  have "list_all2 (decline_frame (client_now e)) (papers db) (papers db1)"
    unfolding update_papers_Inr(1) [OF Inr]
    by (simp add: list_all2_map2 list_all2_same decline_frame_def)
  moreover have "profiles db1 = profiles db"
    using Inr by (rule update_papers_profiles)
  ultimately show ?thesis by (simp add: db')
qed

theorem C9_decline_writes_status_and_time_only_witness:
  "handleReject (at_time 6 ''n8'') ''T1'' algebra_quiz db_assigned = (Inr (), db_declined) \<and>
   papers db_assigned = [accepted_quiz] \<and> papers db_declined = [rejected_quiz] \<and>
   list_all2 (decline_frame 6) [accepted_quiz] [rejected_quiz] \<and>
   tutor_id rejected_quiz = Some ''T1''"
proof -
  have h: "handleReject (at_time 6 ''n8'') ''T1'' algebra_quiz db_assigned
             = (Inr (), db_declined)"
    by (simp add: handleReject_def policy_defs statement_defs example_defs)
  have p: "papers db_assigned = [accepted_quiz]" "papers db_declined = [rejected_quiz]"
    by (simp_all add: db_assigned_def db_declined_def)
  from C9_decline_writes_status_and_time_only [OF h]
  have "list_all2 (decline_frame 6) [accepted_quiz] [rejected_quiz]"
    unfolding p by (simp add: at_time_def)
  moreover have "tutor_id rejected_quiz = Some ''T1''"
    by (simp add: example_defs)
  ultimately show ?thesis using h p by blast
qed

subsection \<open>Claim C10: marking a notification as read\<close>

text \<open>
  C10: \<open>markAsRead\<close> changes nothing but the read flag of notifications; a notification is
  read afterwards exactly when it was read before or it is the user's notification with
  the given key; a notification that was read is left as it is; doing it twice is doing it
  once.
\<close>

theorem C10_markAsRead_sets_flag_only_and_is_idempotent:
  "markAsRead uid k (markAsRead uid k db) = markAsRead uid k db \<and>
   papers (markAsRead uid k db) = papers db \<and>
   profiles (markAsRead uid k db) = profiles db \<and>
   map (\<lambda>n. n\<lparr>is_read := True\<rparr>) (notifications (markAsRead uid k db))
     = map (\<lambda>n. n\<lparr>is_read := True\<rparr>) (notifications db) \<and>
   list_all2 (\<lambda>n n'. is_read n' = (is_read n \<or> (id_n n = k \<and> user_id n = uid)))
     (notifications db) (notifications (markAsRead uid k db)) \<and>
   list_all2 (\<lambda>n n'. n' = n \<or> (\<not> is_read n \<and> n' = n\<lparr>is_read := True\<rparr>))
     (notifications db) (notifications (markAsRead uid k db))"
proof -
  have twice: "markAsRead uid k (markAsRead uid k db) = markAsRead uid k db"
    by (simp add: markAsRead_def policy_defs)
  have frame: "map (\<lambda>n. n\<lparr>is_read := True\<rparr>) (notifications (markAsRead uid k db))
     = map (\<lambda>n. n\<lparr>is_read := True\<rparr>) (notifications db)"
    by (rule markAsRead_keeps_all_but_is_read)
  have flag: "list_all2 (\<lambda>n n'. is_read n' = (is_read n \<or> (id_n n = k \<and> user_id n = uid)))
     (notifications db) (notifications (markAsRead uid k db))"
    by (auto simp: markAsRead_def policy_defs list_all2_map2 list_all2_same)
  have same: "list_all2 (\<lambda>n n'. n' = n \<or> (\<not> is_read n \<and> n' = n\<lparr>is_read := True\<rparr>))
     (notifications db) (notifications (markAsRead uid k db))"
  proof -
    have "n\<lparr>is_read := True\<rparr> = n" if "is_read n" for n :: Notification
      using that by simp
    then show ?thesis
      by (auto simp: markAsRead_def policy_defs list_all2_map2 list_all2_same)
  qed
  from twice frame flag same show ?thesis by simp
qed

text \<open>On the example: R1 reads the first of the two notifications, once or twice.\<close>

lemma scenario_mark_as_read:
  "markAsRead ''R1'' ''n1'' db_finalized
     = db_finalized\<lparr>notifications := [accepted_note\<lparr>is_read := True\<rparr>, checked_note]\<rparr>"
  "markAsRead ''R1'' ''n1'' (markAsRead ''R1'' ''n1'' db_finalized)
     = markAsRead ''R1'' ''n1'' db_finalized"
  "markAsRead ''T2'' ''n1'' db_finalized = db_finalized"
  by (simp_all add: markAsRead_def policy_defs example_defs)

end
